theory Spec2Isabelle
  imports Complex_Main "HOL-Library.Monad_Syntax"
begin


section \<open>Numbers, arrays and the store\<close>

text \<open>
  JavaScript numbers are idealised as real numbers: rounding, overflow and signed zero
  are outside this development. The values a real number cannot be (\<open>undefined\<close>,
  \<open>NaN\<close>, \<open>Infinity\<close>) are the result \<open>None\<close> of the operation that would produce
  them: a read past the end of an array, a division by zero, the tangent at a pole.
  A function of the library that returns \<open>None\<close> is one whose JavaScript run computes
  with such a value; \<open>Some\<close> means that every number it read, computed and stored is an
  ordinary number.

  Arrays (\<open>Float32Array\<close> matrices and the plain arrays holding vectors) live in
  a store from addresses to their contents, so that a call like
  \<open>rotateX(this.model, this.model, r)\<close>, whose output and input are one object, is
  run as written.
\<close>

type_synonym addr = nat

record heap =
  cells :: "addr \<rightharpoonup> real list"
  fresh :: addr

datatype js_error = TypeError string | RangeError string | Error string

datatype ret = Null | Ref addr

definition rd :: "heap \<Rightarrow> addr \<Rightarrow> nat \<Rightarrow> real option" where
  \<comment> \<open>\<open>a[i]\<close>: \<open>undefined\<close> past the end\<close>
  "rd h a i = (case cells h a of None \<Rightarrow> None
               | Some xs \<Rightarrow> if i < length xs then Some (xs ! i) else None)"

definition wr :: "addr \<Rightarrow> nat \<Rightarrow> real \<Rightarrow> heap \<Rightarrow> heap option" where
  \<comment> \<open>\<open>out[i] = v\<close> on a typed array: a write past the end is dropped\<close>
  "wr out i v h = (case cells h out of None \<Rightarrow> None
               | Some xs \<Rightarrow> Some (h\<lparr>cells := (cells h)(out \<mapsto> xs[i := v])\<rparr>))"

definition alloc :: "real list \<Rightarrow> heap \<Rightarrow> addr \<times> heap" where
  "alloc xs h = (fresh h, h\<lparr>cells := (cells h)(fresh h \<mapsto> xs), fresh := Suc (fresh h)\<rparr>)"

definition js_div :: "real \<Rightarrow> real \<Rightarrow> real option" where
  \<comment> \<open>\<open>x / y\<close>: \<open>Infinity\<close> or \<open>NaN\<close> when \<open>y\<close> is zero\<close>
  "js_div x y = (if y = 0 then None else Some (x / y))"

definition js_tan :: "real \<Rightarrow> real option" where
  "js_tan x = (if cos x = 0 then None else Some (tan x))"

definition hypot3 :: "real \<Rightarrow> real \<Rightarrow> real \<Rightarrow> real" where
  \<comment> \<open>\<open>Math.hypot(x, y, z)\<close>\<close>
  "hypot3 x y z = sqrt (x * x + y * y + z * z)"

section \<open>The matrix library \<open>mat4\<close>\<close>

definition identity16 :: "real list" where
  "identity16 = [1, 0, 0, 0,  0, 1, 0, 0,  0, 0, 1, 0,  0, 0, 0, 1]"

definition mat4_create :: "heap \<Rightarrow> addr \<times> heap" where
  \<comment> \<open>\<open>new Float32Array(16)\<close> is all zero; then the diagonal is set\<close>
  "mat4_create h = alloc ((replicate 16 0)[0 := 1, 5 := 1, 10 := 1, 15 := 1]) h"

definition mat4_clone :: "addr \<Rightarrow> heap \<Rightarrow> (addr \<times> heap) option" where
  "mat4_clone a h = (case cells h a of None \<Rightarrow> None | Some xs \<Rightarrow> Some (alloc xs h))"

definition mat4_copy :: "addr \<Rightarrow> addr \<Rightarrow> heap \<Rightarrow> (js_error + addr \<times> heap) option" where
  \<comment> \<open>\<open>out.set(a)\<close> copies \<open>a\<close> to the front of \<open>out\<close> and throws when \<open>a\<close> is longer\<close>
  "mat4_copy out a h = (case cells h out of None \<Rightarrow> None | Some xo \<Rightarrow>
     (case cells h a of None \<Rightarrow> None | Some xa \<Rightarrow>
        if length xo < length xa then Some (Inl (RangeError ''offset is out of bounds''))
        else Some (Inr (out, h\<lparr>cells := (cells h)(out \<mapsto> xa @ drop (length xa) xo)\<rparr>))))"

definition mat4_perspective ::
  "addr \<Rightarrow> real \<Rightarrow> real \<Rightarrow> real \<Rightarrow> real \<Rightarrow> heap \<Rightarrow> (addr \<times> heap) option" where
  "mat4_perspective out fov aspect near far h = do {
     t \<leftarrow> js_tan (fov / 2);
     f \<leftarrow> js_div 1.0 t;
     nf \<leftarrow> js_div 1 (near - far);

     fa \<leftarrow> js_div f aspect;
     h \<leftarrow> wr out 0 fa h;
     h \<leftarrow> wr out 1 0 h;
     h \<leftarrow> wr out 2 0 h;
     h \<leftarrow> wr out 3 0 h;

     h \<leftarrow> wr out 4 0 h;
     h \<leftarrow> wr out 5 f h;
     h \<leftarrow> wr out 6 0 h;
     h \<leftarrow> wr out 7 0 h;

     h \<leftarrow> wr out 8 0 h;
     h \<leftarrow> wr out 9 0 h;
     h \<leftarrow> wr out 10 ((far + near) * nf) h;
     h \<leftarrow> wr out 11 (- 1) h;

     h \<leftarrow> wr out 12 0 h;
     h \<leftarrow> wr out 13 0 h;
     h \<leftarrow> wr out 14 ((2 * far * near) * nf) h;
     h \<leftarrow> wr out 15 0 h;

     Some (out, h)
   }"

definition mat4_ortho ::
  "addr \<Rightarrow> real \<Rightarrow> real \<Rightarrow> real \<Rightarrow> real \<Rightarrow> real \<Rightarrow> real \<Rightarrow> heap \<Rightarrow> (addr \<times> heap) option" where
  "mat4_ortho out left right bottom top' near far h = do {
     lr \<leftarrow> js_div 1 (left - right);
     bt \<leftarrow> js_div 1 (bottom - top');
     nf \<leftarrow> js_div 1 (near - far);

     h \<leftarrow> wr out 0 (- 2 * lr) h;
     h \<leftarrow> wr out 5 (- 2 * bt) h;
     h \<leftarrow> wr out 10 (2 * nf) h;

     h \<leftarrow> wr out 12 ((left + right) * lr) h;
     h \<leftarrow> wr out 13 ((top' + bottom) * bt) h;
     h \<leftarrow> wr out 14 ((far + near) * nf) h;
     h \<leftarrow> wr out 15 1 h;

     Some (out, h)
   }"

definition mat4_multiply :: "addr \<Rightarrow> addr \<Rightarrow> addr \<Rightarrow> heap \<Rightarrow> (addr \<times> heap) option" where
  "mat4_multiply out a b h = do {
     a00 \<leftarrow> rd h a 0; a01 \<leftarrow> rd h a 1; a02 \<leftarrow> rd h a 2; a03 \<leftarrow> rd h a 3;
     a10 \<leftarrow> rd h a 4; a11 \<leftarrow> rd h a 5; a12 \<leftarrow> rd h a 6; a13 \<leftarrow> rd h a 7;
     a20 \<leftarrow> rd h a 8; a21 \<leftarrow> rd h a 9; a22 \<leftarrow> rd h a 10; a23 \<leftarrow> rd h a 11;
     a30 \<leftarrow> rd h a 12; a31 \<leftarrow> rd h a 13; a32 \<leftarrow> rd h a 14; a33 \<leftarrow> rd h a 15;

     b00 \<leftarrow> rd h b 0; b01 \<leftarrow> rd h b 1; b02 \<leftarrow> rd h b 2; b03 \<leftarrow> rd h b 3;
     b10 \<leftarrow> rd h b 4; b11 \<leftarrow> rd h b 5; b12 \<leftarrow> rd h b 6; b13 \<leftarrow> rd h b 7;
     b20 \<leftarrow> rd h b 8; b21 \<leftarrow> rd h b 9; b22 \<leftarrow> rd h b 10; b23 \<leftarrow> rd h b 11;
     b30 \<leftarrow> rd h b 12; b31 \<leftarrow> rd h b 13; b32 \<leftarrow> rd h b 14; b33 \<leftarrow> rd h b 15;

     h \<leftarrow> wr out 0 (a00*b00 + a01*b10 + a02*b20 + a03*b30) h;
     h \<leftarrow> wr out 1 (a00*b01 + a01*b11 + a02*b21 + a03*b31) h;
     h \<leftarrow> wr out 2 (a00*b02 + a01*b12 + a02*b22 + a03*b32) h;
     h \<leftarrow> wr out 3 (a00*b03 + a01*b13 + a02*b23 + a03*b33) h;

     h \<leftarrow> wr out 4 (a10*b00 + a11*b10 + a12*b20 + a13*b30) h;
     h \<leftarrow> wr out 5 (a10*b01 + a11*b11 + a12*b21 + a13*b31) h;
     h \<leftarrow> wr out 6 (a10*b02 + a11*b12 + a12*b22 + a13*b32) h;
     h \<leftarrow> wr out 7 (a10*b03 + a11*b13 + a12*b23 + a13*b33) h;

     h \<leftarrow> wr out 8 (a20*b00 + a21*b10 + a22*b20 + a23*b30) h;
     h \<leftarrow> wr out 9 (a20*b01 + a21*b11 + a22*b21 + a23*b31) h;
     h \<leftarrow> wr out 10 (a20*b02 + a21*b12 + a22*b22 + a23*b32) h;
     h \<leftarrow> wr out 11 (a20*b03 + a21*b13 + a22*b23 + a23*b33) h;

     h \<leftarrow> wr out 12 (a30*b00 + a31*b10 + a32*b20 + a33*b30) h;
     h \<leftarrow> wr out 13 (a30*b01 + a31*b11 + a32*b21 + a33*b31) h;
     h \<leftarrow> wr out 14 (a30*b02 + a31*b12 + a32*b22 + a33*b32) h;
     h \<leftarrow> wr out 15 (a30*b03 + a31*b13 + a32*b23 + a33*b33) h;

     Some (out, h)
   }"

definition mat4_translate :: "addr \<Rightarrow> addr \<Rightarrow> addr \<Rightarrow> heap \<Rightarrow> (addr \<times> heap) option" where
  "mat4_translate out a v h = do {
     x \<leftarrow> rd h v 0; y \<leftarrow> rd h v 1; z \<leftarrow> rd h v 2;

     a0 \<leftarrow> rd h a 0; a4 \<leftarrow> rd h a 4; a8 \<leftarrow> rd h a 8; a12 \<leftarrow> rd h a 12;
     h \<leftarrow> wr out 12 (a0 * x + a4 * y + a8 * z + a12) h;
     a1 \<leftarrow> rd h a 1; a5 \<leftarrow> rd h a 5; a9 \<leftarrow> rd h a 9; a13 \<leftarrow> rd h a 13;
     h \<leftarrow> wr out 13 (a1 * x + a5 * y + a9 * z + a13) h;
     a2 \<leftarrow> rd h a 2; a6 \<leftarrow> rd h a 6; a10 \<leftarrow> rd h a 10; a14 \<leftarrow> rd h a 14;
     h \<leftarrow> wr out 14 (a2 * x + a6 * y + a10 * z + a14) h;
     a3 \<leftarrow> rd h a 3; a7 \<leftarrow> rd h a 7; a11 \<leftarrow> rd h a 11; a15 \<leftarrow> rd h a 15;
     h \<leftarrow> wr out 15 (a3 * x + a7 * y + a11 * z + a15) h;

     Some (out, h)
   }"

definition mat4_scale :: "addr \<Rightarrow> addr \<Rightarrow> addr \<Rightarrow> heap \<Rightarrow> (addr \<times> heap) option" where
  "mat4_scale out a v h = do {
     x \<leftarrow> rd h v 0; y \<leftarrow> rd h v 1; z \<leftarrow> rd h v 2;

     a0 \<leftarrow> rd h a 0; h \<leftarrow> wr out 0 (a0 * x) h;
     a1 \<leftarrow> rd h a 1; h \<leftarrow> wr out 1 (a1 * x) h;
     a2 \<leftarrow> rd h a 2; h \<leftarrow> wr out 2 (a2 * x) h;
     a3 \<leftarrow> rd h a 3; h \<leftarrow> wr out 3 (a3 * x) h;

     a4 \<leftarrow> rd h a 4; h \<leftarrow> wr out 4 (a4 * y) h;
     a5 \<leftarrow> rd h a 5; h \<leftarrow> wr out 5 (a5 * y) h;
     a6 \<leftarrow> rd h a 6; h \<leftarrow> wr out 6 (a6 * y) h;
     a7 \<leftarrow> rd h a 7; h \<leftarrow> wr out 7 (a7 * y) h;

     a8 \<leftarrow> rd h a 8; h \<leftarrow> wr out 8 (a8 * z) h;
     a9 \<leftarrow> rd h a 9; h \<leftarrow> wr out 9 (a9 * z) h;
     a10 \<leftarrow> rd h a 10; h \<leftarrow> wr out 10 (a10 * z) h;
     a11 \<leftarrow> rd h a 11; h \<leftarrow> wr out 11 (a11 * z) h;

     Some (out, h)
   }"

definition mat4_rotateX :: "addr \<Rightarrow> addr \<Rightarrow> real \<Rightarrow> heap \<Rightarrow> (addr \<times> heap) option" where
  "mat4_rotateX out a rad h = do {
     let s = sin rad;
     let c = cos rad;

     a10 \<leftarrow> rd h a 4;
     a11 \<leftarrow> rd h a 5;
     a12 \<leftarrow> rd h a 6;
     a13 \<leftarrow> rd h a 7;
     a20 \<leftarrow> rd h a 8;
     a21 \<leftarrow> rd h a 9;
     a22 \<leftarrow> rd h a 10;
     a23 \<leftarrow> rd h a 11;

     h \<leftarrow> wr out 4 (a10 * c + a20 * s) h;
     h \<leftarrow> wr out 5 (a11 * c + a21 * s) h;
     h \<leftarrow> wr out 6 (a12 * c + a22 * s) h;
     h \<leftarrow> wr out 7 (a13 * c + a23 * s) h;

     h \<leftarrow> wr out 8 (a20 * c - a10 * s) h;
     h \<leftarrow> wr out 9 (a21 * c - a11 * s) h;
     h \<leftarrow> wr out 10 (a22 * c - a12 * s) h;
     h \<leftarrow> wr out 11 (a23 * c - a13 * s) h;

     Some (out, h)
   }"

definition mat4_rotateY :: "addr \<Rightarrow> addr \<Rightarrow> real \<Rightarrow> heap \<Rightarrow> (addr \<times> heap) option" where
  "mat4_rotateY out a rad h = do {
     let s = sin rad;
     let c = cos rad;

     a00 \<leftarrow> rd h a 0;
     a01 \<leftarrow> rd h a 1;
     a02 \<leftarrow> rd h a 2;
     a03 \<leftarrow> rd h a 3;
     a20 \<leftarrow> rd h a 8;
     a21 \<leftarrow> rd h a 9;
     a22 \<leftarrow> rd h a 10;
     a23 \<leftarrow> rd h a 11;

     h \<leftarrow> wr out 0 (a00 * c - a20 * s) h;
     h \<leftarrow> wr out 1 (a01 * c - a21 * s) h;
     h \<leftarrow> wr out 2 (a02 * c - a22 * s) h;
     h \<leftarrow> wr out 3 (a03 * c - a23 * s) h;

     h \<leftarrow> wr out 8 (a00 * s + a20 * c) h;
     h \<leftarrow> wr out 9 (a01 * s + a21 * c) h;
     h \<leftarrow> wr out 10 (a02 * s + a22 * c) h;
     h \<leftarrow> wr out 11 (a03 * s + a23 * c) h;

     Some (out, h)
   }"

definition mat4_rotateZ :: "addr \<Rightarrow> addr \<Rightarrow> real \<Rightarrow> heap \<Rightarrow> (addr \<times> heap) option" where
  "mat4_rotateZ out a rad h = do {
     let s = sin rad;
     let c = cos rad;

     a00 \<leftarrow> rd h a 0;
     a01 \<leftarrow> rd h a 1;
     a02 \<leftarrow> rd h a 2;
     a03 \<leftarrow> rd h a 3;
     a10 \<leftarrow> rd h a 4;
     a11 \<leftarrow> rd h a 5;
     a12 \<leftarrow> rd h a 6;
     a13 \<leftarrow> rd h a 7;

     h \<leftarrow> wr out 0 (a00 * c + a10 * s) h;
     h \<leftarrow> wr out 1 (a01 * c + a11 * s) h;
     h \<leftarrow> wr out 2 (a02 * c + a12 * s) h;
     h \<leftarrow> wr out 3 (a03 * c + a13 * s) h;

     h \<leftarrow> wr out 4 (a10 * c - a00 * s) h;
     h \<leftarrow> wr out 5 (a11 * c - a01 * s) h;
     h \<leftarrow> wr out 6 (a12 * c - a02 * s) h;
     h \<leftarrow> wr out 7 (a13 * c - a03 * s) h;

     Some (out, h)
   }"

definition mat4_invert :: "addr \<Rightarrow> addr \<Rightarrow> heap \<Rightarrow> (ret \<times> heap) option" where
  "mat4_invert out a h = do {
     a00 \<leftarrow> rd h a 0; a01 \<leftarrow> rd h a 1; a02 \<leftarrow> rd h a 2; a03 \<leftarrow> rd h a 3;
     a10 \<leftarrow> rd h a 4; a11 \<leftarrow> rd h a 5; a12 \<leftarrow> rd h a 6; a13 \<leftarrow> rd h a 7;
     a20 \<leftarrow> rd h a 8; a21 \<leftarrow> rd h a 9; a22 \<leftarrow> rd h a 10; a23 \<leftarrow> rd h a 11;
     a30 \<leftarrow> rd h a 12; a31 \<leftarrow> rd h a 13; a32 \<leftarrow> rd h a 14; a33 \<leftarrow> rd h a 15;

     let b00 = a00 * a11 - a01 * a10;
     let b01 = a00 * a12 - a02 * a10;
     let b02 = a00 * a13 - a03 * a10;
     let b03 = a01 * a12 - a02 * a11;
     let b04 = a01 * a13 - a03 * a11;
     let b05 = a02 * a13 - a03 * a12;
     let b06 = a20 * a31 - a21 * a30;
     let b07 = a20 * a32 - a22 * a30;
     let b08 = a20 * a33 - a23 * a30;
     let b09 = a21 * a32 - a22 * a31;
     let b10 = a21 * a33 - a23 * a31;
     let b11 = a22 * a33 - a23 * a32;

     let det =
         b00 * b11 - b01 * b10 + b02 * b09 +
         b03 * b08 - b04 * b07 + b05 * b06;

     if det = 0 then Some (Null, h) else do {

     invDet \<leftarrow> js_div 1 det;

     h \<leftarrow> wr out 0 (( a11*b11 - a12*b10 + a13*b09) * invDet) h;
     h \<leftarrow> wr out 1 ((-a01*b11 + a02*b10 - a03*b09) * invDet) h;
     h \<leftarrow> wr out 2 (( a31*b05 - a32*b04 + a33*b03) * invDet) h;
     h \<leftarrow> wr out 3 ((-a21*b05 + a22*b04 - a23*b03) * invDet) h;

     h \<leftarrow> wr out 4 ((-a10*b11 + a12*b08 - a13*b07) * invDet) h;
     h \<leftarrow> wr out 5 (( a00*b11 - a02*b08 + a03*b07) * invDet) h;
     h \<leftarrow> wr out 6 ((-a30*b05 + a32*b02 - a33*b01) * invDet) h;
     h \<leftarrow> wr out 7 (( a20*b05 - a22*b02 + a23*b01) * invDet) h;

     h \<leftarrow> wr out 8 (( a10*b10 - a11*b08 + a13*b06) * invDet) h;
     h \<leftarrow> wr out 9 ((-a00*b10 + a01*b08 - a03*b06) * invDet) h;
     h \<leftarrow> wr out 10 (( a30*b04 - a31*b02 + a33*b00) * invDet) h;
     h \<leftarrow> wr out 11 ((-a20*b04 + a21*b02 - a23*b00) * invDet) h;

     h \<leftarrow> wr out 12 ((-a10*b09 + a11*b07 - a12*b06) * invDet) h;
     h \<leftarrow> wr out 13 (( a00*b09 - a01*b07 + a02*b06) * invDet) h;
     h \<leftarrow> wr out 14 ((-a30*b03 + a31*b01 - a32*b00) * invDet) h;
     h \<leftarrow> wr out 15 (( a20*b03 - a21*b01 + a22*b00) * invDet) h;

     Some (Ref out, h)
   }}"

definition mat4_lookAt :: "addr \<Rightarrow> addr \<Rightarrow> addr \<Rightarrow> addr \<Rightarrow> heap \<Rightarrow> (addr \<times> heap) option" where
  "mat4_lookAt out eye center up h = do {
     eyex \<leftarrow> rd h eye 0;
     eyey \<leftarrow> rd h eye 1;
     eyez \<leftarrow> rd h eye 2;

     upx \<leftarrow> rd h up 0;
     upy \<leftarrow> rd h up 1;
     upz \<leftarrow> rd h up 2;

     centerx \<leftarrow> rd h center 0;
     centery \<leftarrow> rd h center 1;
     centerz \<leftarrow> rd h center 2;

     let z0 = eyex - centerx;
     let z1 = eyey - centery;
     let z2 = eyez - centerz;

     let len = hypot3 z0 z1 z2;
     (z0, z1, z2) \<leftarrow>
       (if len = 0 then Some (z0, z1, 1)
        else do {
          q0 \<leftarrow> js_div z0 len;
          q1 \<leftarrow> js_div z1 len;
          q2 \<leftarrow> js_div z2 len;
          Some (q0, q1, q2)
        });

     let x0 = upy * z2 - upz * z1;
     let x1 = upz * z0 - upx * z2;
     let x2 = upx * z1 - upy * z0;
     let len = hypot3 x0 x1 x2;
     (x0, x1, x2) \<leftarrow>
       (if len = 0 then Some (1, x1, x2)
        else do {
          q0 \<leftarrow> js_div x0 len;
          q1 \<leftarrow> js_div x1 len;
          q2 \<leftarrow> js_div x2 len;
          Some (q0, q1, q2)
        });

     let y0 = z1 * x2 - z2 * x1;
     let y1 = z2 * x0 - z0 * x2;
     let y2 = z0 * x1 - z1 * x0;

     h \<leftarrow> wr out 0 x0 h;
     h \<leftarrow> wr out 1 y0 h;
     h \<leftarrow> wr out 2 z0 h;
     h \<leftarrow> wr out 3 0 h;

     h \<leftarrow> wr out 4 x1 h;
     h \<leftarrow> wr out 5 y1 h;
     h \<leftarrow> wr out 6 z1 h;
     h \<leftarrow> wr out 7 0 h;

     h \<leftarrow> wr out 8 x2 h;
     h \<leftarrow> wr out 9 y2 h;
     h \<leftarrow> wr out 10 z2 h;
     h \<leftarrow> wr out 11 0 h;

     h \<leftarrow> wr out 12 (- (x0 * eyex + x1 * eyey + x2 * eyez)) h;
     h \<leftarrow> wr out 13 (- (y0 * eyex + y1 * eyey + y2 * eyez)) h;
     h \<leftarrow> wr out 14 (- (z0 * eyex + z1 * eyey + z2 * eyez)) h;
     h \<leftarrow> wr out 15 1 h;

     Some (out, h)
   }"

section \<open>Matrices as mathematics\<close>

text \<open>
  The notions the specification speaks of, written from linear algebra and not from the
  code: a matrix is the list of its 16 entries stored column by column, so the entry in
  row \<open>r\<close> and column \<open>c\<close> is at index \<open>4 * c + r\<close>; the product, the elementary
  transforms, the determinant by cofactor expansion and the inverse as adjugate over
  determinant. \<open>upd\<close> and \<open>returned_array\<close> only abbreviate statements about the store.
\<close>

definition upd :: "heap \<Rightarrow> addr \<Rightarrow> real list \<Rightarrow> heap" where
  "upd h p xs = h\<lparr>cells := (cells h)(p \<mapsto> xs)\<rparr>"

definition returned_array :: "(addr \<times> heap) option \<Rightarrow> real list option" where
  "returned_array r = (case r of None \<Rightarrow> None | Some (p, h) \<Rightarrow> cells h p)"

definition cm :: "real list \<Rightarrow> nat \<Rightarrow> nat \<Rightarrow> real" where
  "cm m r c = m ! (4 * c + r)"

definition cm_entry :: "real list \<Rightarrow> real list \<Rightarrow> nat \<Rightarrow> nat \<Rightarrow> real" where
  "cm_entry a b r c =
     cm a r 0 * cm b 0 c + cm a r 1 * cm b 1 c + cm a r 2 * cm b 2 c + cm a r 3 * cm b 3 c"

definition cm_product :: "real list \<Rightarrow> real list \<Rightarrow> real list" where
  "cm_product a b = concat (map (\<lambda>c. map (\<lambda>r. cm_entry a b r c) [0, 1, 2, 3]) [0, 1, 2, 3])"

definition translation_matrix :: "real \<Rightarrow> real \<Rightarrow> real \<Rightarrow> real list" where
  "translation_matrix x y z = [1, 0, 0, 0,  0, 1, 0, 0,  0, 0, 1, 0,  x, y, z, 1]"

definition scaling_matrix :: "real \<Rightarrow> real \<Rightarrow> real \<Rightarrow> real list" where
  "scaling_matrix x y z = [x, 0, 0, 0,  0, y, 0, 0,  0, 0, z, 0,  0, 0, 0, 1]"

definition rotation_x :: "real \<Rightarrow> real list" where
  "rotation_x t = [1, 0, 0, 0,  0, cos t, sin t, 0,  0, - sin t, cos t, 0,  0, 0, 0, 1]"

definition rotation_y :: "real \<Rightarrow> real list" where
  "rotation_y t = [cos t, 0, - sin t, 0,  0, 1, 0, 0,  sin t, 0, cos t, 0,  0, 0, 0, 1]"

definition rotation_z :: "real \<Rightarrow> real list" where
  "rotation_z t = [cos t, sin t, 0, 0,  - sin t, cos t, 0, 0,  0, 0, 1, 0,  0, 0, 0, 1]"








section \<open>Calling a method of \<open>mat4\<close>\<close>

text \<open>
  \<open>mat4\<close> is an object literal; \<open>mat4.f(args)\<close> looks the property \<open>f\<close> up and calls
  it, and throws a \<open>TypeError\<close> when the object has no such property. The table lists
  the thirteen methods of the literal in source order. Arguments that callers pass
  beyond a method's parameters are ignored; a call whose arguments are not of the kind
  the method computes with is not modelled (\<open>None\<close>).
\<close>

datatype arg = ARef addr | ANum real

type_synonym outcome = "(js_error + ret) \<times> heap"

definition returns :: "(addr \<times> heap) option \<Rightarrow> outcome option" where
  "returns r = (case r of None \<Rightarrow> None | Some (p, h) \<Rightarrow> Some (Inr (Ref p), h))"

definition mat4 :: "(string \<times> (arg list \<Rightarrow> heap \<Rightarrow> outcome option)) list" where
  "mat4 = [
     (''create'', \<lambda>args h. returns (Some (mat4_create h))),
     (''clone'', \<lambda>args h. case args of ARef a # _ \<Rightarrow> returns (mat4_clone a h) | _ \<Rightarrow> None),
     (''copy'', \<lambda>args h. case args of
         ARef out # ARef a # _ \<Rightarrow>
           (case mat4_copy out a h of None \<Rightarrow> None
            | Some (Inl e) \<Rightarrow> Some (Inl e, h)
            | Some (Inr (p, h')) \<Rightarrow> Some (Inr (Ref p), h'))
       | _ \<Rightarrow> None),
     (''perspective'', \<lambda>args h. case args of
         ARef out # ANum fov # ANum aspect # ANum near # ANum far # _ \<Rightarrow>
           returns (mat4_perspective out fov aspect near far h)
       | _ \<Rightarrow> None),
     (''ortho'', \<lambda>args h. case args of
         ARef out # ANum left # ANum right # ANum bottom # ANum top' # ANum near # ANum far # _ \<Rightarrow>
           returns (mat4_ortho out left right bottom top' near far h)
       | _ \<Rightarrow> None),
     (''multiply'', \<lambda>args h. case args of
         ARef out # ARef a # ARef b # _ \<Rightarrow> returns (mat4_multiply out a b h) | _ \<Rightarrow> None),
     (''translate'', \<lambda>args h. case args of
         ARef out # ARef a # ARef v # _ \<Rightarrow> returns (mat4_translate out a v h) | _ \<Rightarrow> None),
     (''scale'', \<lambda>args h. case args of
         ARef out # ARef a # ARef v # _ \<Rightarrow> returns (mat4_scale out a v h) | _ \<Rightarrow> None),
     (''rotateX'', \<lambda>args h. case args of
         ARef out # ARef a # ANum rad # _ \<Rightarrow> returns (mat4_rotateX out a rad h) | _ \<Rightarrow> None),
     (''rotateY'', \<lambda>args h. case args of
         ARef out # ARef a # ANum rad # _ \<Rightarrow> returns (mat4_rotateY out a rad h) | _ \<Rightarrow> None),
     (''rotateZ'', \<lambda>args h. case args of
         ARef out # ARef a # ANum rad # _ \<Rightarrow> returns (mat4_rotateZ out a rad h) | _ \<Rightarrow> None),
     (''invert'', \<lambda>args h. case args of
         ARef out # ARef a # _ \<Rightarrow>
           (case mat4_invert out a h of None \<Rightarrow> None | Some (r, h') \<Rightarrow> Some (Inr r, h'))
       | _ \<Rightarrow> None),
     (''lookAt'', \<lambda>args h. case args of
         ARef out # ARef eye # ARef center # ARef up # _ \<Rightarrow>
           returns (mat4_lookAt out eye center up h)
       | _ \<Rightarrow> None)
   ]"

definition mat4_call :: "string \<Rightarrow> arg list \<Rightarrow> heap \<Rightarrow> outcome option" where
  "mat4_call name args h = (case map_of mat4 name of
       None \<Rightarrow> Some (Inl (TypeError (''mat4.'' @ name @ '' is not a function'')), h)
     | Some f \<Rightarrow> f args h)"

definition and_then :: "outcome option \<Rightarrow> (heap \<Rightarrow> outcome option) \<Rightarrow> outcome option" where
  \<comment> \<open>two statements in sequence: an exception thrown by the first skips the second\<close>
  "and_then r k = (case r of None \<Rightarrow> None
                  | Some (Inl e, h) \<Rightarrow> Some (Inl e, h)
                  | Some (Inr _, h) \<Rightarrow> k h)"

section \<open>The mesh\<close>

text \<open>
  Of a \<open>Mesh\<close> only what \<open>update\<close> touches is modelled: the rotation speed, the
  rotation accumulator (plain arrays) and the model matrix (a reference into the
  store). The buffers, the shader program and \<open>draw\<close> are calls into WebGL.
\<close>

record mesh =
  rotationSpeed :: "real list"
  rotation :: "real list"
  model :: addr

definition elem :: "real list \<Rightarrow> nat \<Rightarrow> real option" where
  \<comment> \<open>\<open>xs[i]\<close> on a plain array: \<open>undefined\<close> past the end\<close>
  "elem xs i = (if i < length xs then Some (xs ! i) else None)"

definition Mesh_new :: "real list option \<Rightarrow> heap \<Rightarrow> mesh \<times> heap" where
  \<comment> \<open>the constructor, with \<open>options.rotationSpeed\<close> as argument\<close>
  "Mesh_new speed h =
     (let rotationSpeed = (case speed of None \<Rightarrow> [0.01, 0.01, 0] | Some s \<Rightarrow> s);
          rotation = [0, 0, 0];
          (p, h) = mat4_create h
      in (\<lparr>rotationSpeed = rotationSpeed, rotation = rotation, model = p\<rparr>, h))"

definition update :: "mesh \<Rightarrow> heap \<Rightarrow> (js_error option \<times> mesh \<times> heap) option" where
  \<comment> \<open>the first component is the exception \<open>update\<close> throws, if any\<close>
  "update this h = do {
     r0 \<leftarrow> elem (rotation this) 0; s0 \<leftarrow> elem (rotationSpeed this) 0;
     let this = this\<lparr>rotation := (rotation this)[0 := r0 + s0]\<rparr>;
     r1 \<leftarrow> elem (rotation this) 1; s1 \<leftarrow> elem (rotationSpeed this) 1;
     let this = this\<lparr>rotation := (rotation this)[1 := r1 + s1]\<rparr>;
     r2 \<leftarrow> elem (rotation this) 2; s2 \<leftarrow> elem (rotationSpeed this) 2;
     let this = this\<lparr>rotation := (rotation this)[2 := r2 + s2]\<rparr>;

     (r, h) \<leftarrow>
       and_then (mat4_call ''identity'' [ARef (model this)] h) (\<lambda>h.
       and_then (do { x \<leftarrow> elem (rotation this) 0;
                      mat4_call ''rotateX'' [ARef (model this), ARef (model this), ANum x] h }) (\<lambda>h.
       and_then (do { y \<leftarrow> elem (rotation this) 1;
                      mat4_call ''rotateY'' [ARef (model this), ARef (model this), ANum y] h }) (\<lambda>h.
                 do { z \<leftarrow> elem (rotation this) 2;
                      mat4_call ''rotateZ'' [ARef (model this), ARef (model this), ANum z] h })));
     Some (case r of Inl e \<Rightarrow> Some e | Inr _ \<Rightarrow> None, this, h)
   }"


section \<open>The engine adapters\<close>

text \<open>
  The three engines are external libraries. What the adapters make of them is
  modelled by the state each adapter's closure holds: the registry \<open>blocks\<close> (a
  \<open>Map\<close> from keys to the engine's mesh objects) and the container the meshes are
  added to. A mesh object is a record of what the adapter sets on it; its identity
  is a number drawn from a counter. Whether a texture loads and whether an engine's
  constructors throw is given by the environment. \<open>addBlock\<close> is asynchronous; it is
  modelled as one step, that is, with no other call running while it awaits its
  material. The look-up in the registry comes before anything it awaits.
\<close>

datatype lib = Three | Babylon | Playcanvas

record js_module =
  has_WebGLRenderer :: bool
  has_Scene :: bool
  has_PerspectiveCamera :: bool
  has_Engine :: bool
  has_Application :: bool
  has_pc_Application :: bool

text \<open>
  The environment: \<open>import_result spec\<close> is what \<open>import(spec)\<close> resolves to, \<open>None\<close>
  when it rejects; \<open>window_pc\<close> is the global \<open>window.pc\<close> of the browser, when set;
  \<open>init_throws l m\<close> is the exception the constructors of engine \<open>l\<close> throw when
  initialised from module \<open>m\<close>, if any; \<open>texture_loads url\<close> tells whether the texture
  at \<open>url\<close> loads.
\<close>

record env =
  import_result :: "string \<Rightarrow> js_module option"
  window_pc :: "js_module option"
  init_throws :: "lib \<Rightarrow> js_module \<Rightarrow> js_error option"
  texture_loads :: "string \<Rightarrow> bool"

record engine_options =
  opt_prefer :: "string list option"
  opt_blockSize :: "real option"

record settings =
  texture :: "string option"
  color :: "nat option"

datatype material = Textured string | Colored nat

record block =
  block_id :: nat
  block_name :: string
  block_position :: "real \<times> real \<times> real"
  block_material :: material

fun nat_to_string :: "nat \<Rightarrow> string" where
  "nat_to_string n =
     (if n < 10 then [''0123456789'' ! n]
      else nat_to_string (n div 10) @ [''0123456789'' ! (n mod 10)])"

declare nat_to_string.simps [simp del]

definition int_to_string :: "int \<Rightarrow> string" where
  "int_to_string i = (if i < 0 then CHR ''-'' # nat_to_string (nat (- i)) else nat_to_string (nat i))"

definition blockKey :: "int \<Rightarrow> int \<Rightarrow> int \<Rightarrow> string" where
  \<comment> \<open>the template string \<open>`${x},${y},${z}`\<close>\<close>
  "blockKey x y z = int_to_string x @ '','' @ int_to_string y @ '','' @ int_to_string z"

definition color_or_default :: "settings \<Rightarrow> nat" where
  \<comment> \<open>\<open>settings.color || 0x8B4513\<close>\<close>
  "color_or_default st = (case color st of None \<Rightarrow> 0x8B4513 | Some c \<Rightarrow> if c = 0 then 0x8B4513 else c)"

definition block_size :: "engine_options \<Rightarrow> real" where
  \<comment> \<open>\<open>opts.blockSize || 1\<close>\<close>
  "block_size opts = (case opt_blockSize opts of None \<Rightarrow> 1 | Some b \<Rightarrow> if b = 0 then 1 else b)"

definition centre :: "real \<Rightarrow> int \<Rightarrow> int \<Rightarrow> int \<Rightarrow> real \<times> real \<times> real" where
  "centre bs x y z = (of_int x * bs + bs / 2, of_int y * bs + bs / 2, of_int z * bs + bs / 2)"

subsection \<open>three.js\<close>

record three_state =
  t_blocks :: "string \<rightharpoonup> block"
  t_world :: "block list"
  t_disposed :: "nat list"
  t_next :: nat
  t_blockSize :: real

definition three_makeMaterial :: "env \<Rightarrow> settings \<Rightarrow> material" where
  "three_makeMaterial e st =
     (case texture st of
        Some t \<Rightarrow> if t \<noteq> [] \<and> texture_loads e t then Textured t else Colored (color_or_default st)
      | None \<Rightarrow> Colored (color_or_default st))"

definition three_addBlock ::
  "env \<Rightarrow> int \<Rightarrow> int \<Rightarrow> int \<Rightarrow> settings \<Rightarrow> three_state \<Rightarrow> block \<times> three_state" where
  "three_addBlock e x y z st s =
     (let key = blockKey x y z in
      case t_blocks s key of
        Some m \<Rightarrow> (m, s)
      | None \<Rightarrow>
         (let mat = three_makeMaterial e st;
              mesh = \<lparr>block_id = t_next s, block_name = [],
                      block_position = centre (t_blockSize s) x y z, block_material = mat\<rparr>
          in (mesh, s\<lparr>t_world := t_world s @ [mesh],
                      t_blocks := (t_blocks s)(key \<mapsto> mesh),
                      t_next := Suc (t_next s)\<rparr>)))"

definition three_removeBlock :: "int \<Rightarrow> int \<Rightarrow> int \<Rightarrow> three_state \<Rightarrow> bool \<times> three_state" where
  "three_removeBlock x y z s =
     (let key = blockKey x y z in
      case t_blocks s key of
        None \<Rightarrow> (False, s)
      | Some m \<Rightarrow>
         (True, s\<lparr>t_world := filter (\<lambda>b. block_id b \<noteq> block_id m) (t_world s),
                  t_disposed := t_disposed s @ [block_id m],
                  t_blocks := (t_blocks s)(key := None)\<rparr>))"

subsection \<open>Babylon.js\<close>

record babylon_state =
  b_blocks :: "string \<rightharpoonup> block"
  b_scene :: "block list"
  b_next :: nat
  b_blockSize :: real

definition babylon_makeMaterial :: "env \<Rightarrow> settings \<Rightarrow> material" where
  "babylon_makeMaterial e st =
     (case texture st of
        Some t \<Rightarrow> if t \<noteq> [] then (if texture_loads e t then Textured t else Colored (color_or_default st))
                  else Colored (color_or_default st)
      | None \<Rightarrow> Colored (color_or_default st))"

definition babylon_addBlock ::
  "env \<Rightarrow> int \<Rightarrow> int \<Rightarrow> int \<Rightarrow> settings \<Rightarrow> babylon_state \<Rightarrow> block \<times> babylon_state" where
  "babylon_addBlock e x y z st s =
     (let key = blockKey x y z in
      case b_blocks s key of
        Some m \<Rightarrow> (m, s)
      | None \<Rightarrow>
         (let mesh = \<lparr>block_id = b_next s, block_name = CHR ''b'' # key,
                      block_position = centre (b_blockSize s) x y z,
                      block_material = babylon_makeMaterial e st\<rparr>
          in (mesh, s\<lparr>b_scene := b_scene s @ [mesh],
                      b_blocks := (b_blocks s)(key \<mapsto> mesh),
                      b_next := Suc (b_next s)\<rparr>)))"

definition babylon_removeBlock :: "int \<Rightarrow> int \<Rightarrow> int \<Rightarrow> babylon_state \<Rightarrow> bool \<times> babylon_state" where
  "babylon_removeBlock x y z s =
     (let key = blockKey x y z in
      case b_blocks s key of
        None \<Rightarrow> (False, s)
      | Some m \<Rightarrow>
         (True, s\<lparr>b_scene := filter (\<lambda>b. block_id b \<noteq> block_id m) (b_scene s),
                  b_blocks := (b_blocks s)(key := None)\<rparr>))"

subsection \<open>PlayCanvas\<close>

record playcanvas_state =
  p_blocks :: "string \<rightharpoonup> block"
  p_root :: "block list"
  p_assets :: "string list"
  p_next :: nat
  p_blockSize :: real

definition playcanvas_addBlock ::
  "env \<Rightarrow> int \<Rightarrow> int \<Rightarrow> int \<Rightarrow> settings \<Rightarrow> playcanvas_state
    \<Rightarrow> (block \<times> playcanvas_state) option" where
  \<comment> \<open>\<open>None\<close>: the promise never settles, because the texture asset never becomes ready\<close>
  "playcanvas_addBlock e x y z st s =
     (let key = blockKey x y z in
      case p_blocks s key of
        Some m \<Rightarrow> Some (m, s)
      | None \<Rightarrow>
         (let ent = \<lparr>block_id = p_next s, block_name = [],
                     block_position = centre (p_blockSize s) x y z,
                     block_material = Colored 0x8B4513\<rparr>
          in case texture st of
               Some t \<Rightarrow>
                 if t \<noteq> [] then
                   (if texture_loads e t then
                      (let ent = ent\<lparr>block_material := Textured t\<rparr>
                       in Some (ent, s\<lparr>p_assets := p_assets s @ [''tex-'' @ key],
                                       p_root := p_root s @ [ent],
                                       p_blocks := (p_blocks s)(key \<mapsto> ent),
                                       p_next := Suc (p_next s)\<rparr>))
                    else None)
                 else Some (ent, s\<lparr>p_root := p_root s @ [ent],
                                   p_blocks := (p_blocks s)(key \<mapsto> ent),
                                   p_next := Suc (p_next s)\<rparr>)
             | None \<Rightarrow> Some (ent, s\<lparr>p_root := p_root s @ [ent],
                                     p_blocks := (p_blocks s)(key \<mapsto> ent),
                                     p_next := Suc (p_next s)\<rparr>)))"

definition playcanvas_removeBlock ::
  "int \<Rightarrow> int \<Rightarrow> int \<Rightarrow> playcanvas_state \<Rightarrow> bool \<times> playcanvas_state" where
  "playcanvas_removeBlock x y z s =
     (let key = blockKey x y z in
      case p_blocks s key of
        None \<Rightarrow> (False, s)
      | Some m \<Rightarrow>
         (True, s\<lparr>p_root := filter (\<lambda>b. block_id b \<noteq> block_id m) (p_root s),
                  p_blocks := (p_blocks s)(key := None)\<rparr>))"

section \<open>The engine loader\<close>

datatype handle =
    ThreeHandle three_state
  | BabylonHandle babylon_state
  | PlaycanvasHandle playcanvas_state

fun libName :: "handle \<Rightarrow> string" where
  "libName (ThreeHandle _) = ''three''"
| "libName (BabylonHandle _) = ''babylon''"
| "libName (PlaycanvasHandle _) = ''playcanvas''"

datatype event = Import string | Init lib

definition DEFAULT_ORDER :: "string list" where
  "DEFAULT_ORDER = [''three'', ''@babylonjs/core'', ''playcanvas'']"

definition no_engine :: js_error where
  "no_engine = Error ''No supported 3D engine available. Install or load three, @babylonjs/core or playcanvas.''"

definition tryImport :: "env \<Rightarrow> string \<Rightarrow> event list \<Rightarrow> js_module option \<times> event list" where
  \<comment> \<open>the \<open>catch\<close> turns a rejected import into \<open>null\<close>\<close>
  "tryImport e spec tr = (import_result e spec, tr @ [Import spec])"

definition or_else ::
  "js_module option \<times> event list \<Rightarrow> (event list \<Rightarrow> js_module option \<times> event list)
    \<Rightarrow> js_module option \<times> event list" where
  \<comment> \<open>\<open>a || b\<close>: \<open>b\<close> is evaluated only when \<open>a\<close> is \<open>null\<close>\<close>
  "or_else a b = (case a of (Some m, tr) \<Rightarrow> (Some m, tr) | (None, tr) \<Rightarrow> b tr)"

definition initThree :: "env \<Rightarrow> js_module \<Rightarrow> engine_options \<Rightarrow> js_error + handle" where
  "initThree e mod' opts = (case init_throws e Three mod' of
       Some err \<Rightarrow> Inl err
     | None \<Rightarrow> Inr (ThreeHandle \<lparr>t_blocks = Map.empty, t_world = [], t_disposed = [],
                                   t_next = 0, t_blockSize = block_size opts\<rparr>))"

definition initBabylon :: "env \<Rightarrow> js_module \<Rightarrow> engine_options \<Rightarrow> js_error + handle" where
  "initBabylon e mod' opts = (case init_throws e Babylon mod' of
       Some err \<Rightarrow> Inl err
     | None \<Rightarrow> Inr (BabylonHandle \<lparr>b_blocks = Map.empty, b_scene = [],
                                     b_next = 0, b_blockSize = block_size opts\<rparr>))"

definition initPlaycanvas :: "env \<Rightarrow> js_module \<Rightarrow> engine_options \<Rightarrow> js_error + handle" where
  "initPlaycanvas e mod' opts = (case init_throws e Playcanvas mod' of
       Some err \<Rightarrow> Inl err
     | None \<Rightarrow> Inr (PlaycanvasHandle \<lparr>p_blocks = Map.empty, p_root = [], p_assets = [],
                                        p_next = 0, p_blockSize = block_size opts\<rparr>))"

definition try_return :: "lib \<Rightarrow> js_error + handle \<Rightarrow> event list \<Rightarrow> handle option \<times> event list" where
  \<comment> \<open>\<open>try { return await init(mod, canvas, options); } catch (e) {}\<close>:
      the handle when the initialiser returns, nothing when it throws\<close>
  "try_return l r tr = (case r of Inl err \<Rightarrow> (None, tr @ [Init l]) | Inr hnd \<Rightarrow> (Some hnd, tr @ [Init l]))"

definition attempt :: "env \<Rightarrow> engine_options \<Rightarrow> string \<Rightarrow> event list \<Rightarrow> handle option \<times> event list" where
  \<comment> \<open>the body of the loop for one name: \<open>Some\<close> is its \<open>return\<close>\<close>
  "attempt e opts name tr =
     (if name = ''three'' then
        (case tryImport e ''three'' tr of
           (Some m, tr) \<Rightarrow> try_return Three (initThree e m opts) tr
         | (None, tr) \<Rightarrow> (None, tr))
      else if name = ''@babylonjs/core'' \<or> name = ''babylon'' then
        (case or_else (tryImport e ''@babylonjs/core'' tr) (tryImport e ''babylonjs'') of
           (Some m, tr) \<Rightarrow> try_return Babylon (initBabylon e m opts) tr
         | (None, tr) \<Rightarrow> (None, tr))
      else if name = ''playcanvas'' then
        (case or_else (tryImport e ''playcanvas'' tr) (\<lambda>tr. (window_pc e, tr)) of
           (Some m, tr) \<Rightarrow> try_return Playcanvas (initPlaycanvas e m opts) tr
         | (None, tr) \<Rightarrow> (None, tr))
      else
        (case tryImport e name tr of
           (Some m, tr) \<Rightarrow>
             if has_WebGLRenderer m \<and> has_Scene m \<and> has_PerspectiveCamera m then
               try_return Three (initThree e m opts) tr
             else if has_Engine m \<and> has_Scene m then
               try_return Babylon (initBabylon e m opts) tr
             else if has_Application m \<or> has_pc_Application m then
               try_return Playcanvas (initPlaycanvas e m opts) tr
             else (None, tr)
         | (None, tr) \<Rightarrow> (None, tr)))"

fun createEngine_loop ::
  "env \<Rightarrow> engine_options \<Rightarrow> string list \<Rightarrow> event list \<Rightarrow> (js_error + handle) \<times> event list" where
  "createEngine_loop e opts [] tr = (Inl no_engine, tr)"
| "createEngine_loop e opts (name # rest) tr =
     (case attempt e opts name tr of
        (Some hnd, tr) \<Rightarrow> (Inr hnd, tr)
      | (None, tr) \<Rightarrow> createEngine_loop e opts rest tr)"

definition createEngine :: "env \<Rightarrow> engine_options \<Rightarrow> (js_error + handle) \<times> event list" where
  "createEngine e opts =
     createEngine_loop e opts (case opt_prefer opts of None \<Rightarrow> DEFAULT_ORDER | Some p \<Rightarrow> p) []"

subsection \<open>The loader as the specification words it\<close>

text \<open>
  For each candidate attempt the dynamic load; on success attempt the initialisation;
  on a failure of either go on to the next candidate; fail with the error when the
  list is exhausted. The two steps are parameters; each also yields the events it
  causes, so that the order of the attempts is part of the result.
\<close>

fun first_available ::
  "(string \<Rightarrow> 'm option \<times> 'v list) \<Rightarrow> (string \<Rightarrow> 'm \<Rightarrow> 'h option \<times> 'v list) \<Rightarrow> string list
    \<Rightarrow> (js_error + 'h) \<times> 'v list" where
  "first_available load init [] = (Inl no_engine, [])"
| "first_available load init (name # rest) =
     (case load name of
        (None, ev) \<Rightarrow> (case first_available load init rest of (r, evs) \<Rightarrow> (r, ev @ evs))
      | (Some m, ev) \<Rightarrow>
          (case init name m of
             (Some hnd, ev') \<Rightarrow> (Inr hnd, ev @ ev')
           | (None, ev') \<Rightarrow>
               (case first_available load init rest of (r, evs) \<Rightarrow> (r, ev @ ev' @ evs))))"

definition dynamic_load :: "env \<Rightarrow> string \<Rightarrow> js_module option \<times> event list" where
  \<comment> \<open>the module a candidate name loads: the import expressions of its branch\<close>
  "dynamic_load e name =
     (if name = ''three'' then tryImport e ''three'' []
      else if name = ''@babylonjs/core'' \<or> name = ''babylon'' then
        or_else (tryImport e ''@babylonjs/core'' []) (tryImport e ''babylonjs'')
      else if name = ''playcanvas'' then
        or_else (tryImport e ''playcanvas'' []) (\<lambda>tr. (window_pc e, tr))
      else tryImport e name [])"

definition engine_init :: "env \<Rightarrow> engine_options \<Rightarrow> string \<Rightarrow> js_module \<Rightarrow> handle option \<times> event list" where
  \<comment> \<open>the initialiser a candidate name runs on its module: by name, or for another
      specifier by what the module exports\<close>
  "engine_init e opts name m =
     (if name = ''three'' then try_return Three (initThree e m opts) []
      else if name = ''@babylonjs/core'' \<or> name = ''babylon'' then
        try_return Babylon (initBabylon e m opts) []
      else if name = ''playcanvas'' then try_return Playcanvas (initPlaycanvas e m opts) []
      else if has_WebGLRenderer m \<and> has_Scene m \<and> has_PerspectiveCamera m then
        try_return Three (initThree e m opts) []
      else if has_Engine m \<and> has_Scene m then try_return Babylon (initBabylon e m opts) []
      else if has_Application m \<or> has_pc_Application m then
        try_return Playcanvas (initPlaycanvas e m opts) []
      else (None, []))"


section \<open>Values used in the worked examples\<close>

definition zero16 :: "real list" where
  \<comment> \<open>a \<open>new Float32Array(16)\<close>\<close>
  "zero16 = [0, 0, 0, 0,  0, 0, 0, 0,  0, 0, 0, 0,  0, 0, 0, 0]"

definition heap_of :: "real list list \<Rightarrow> heap" where
  \<comment> \<open>the store holding the given arrays at addresses 0, 1, 2, ...\<close>
  "heap_of xss = \<lparr>cells = (\<lambda>p. if p < length xss then Some (xss ! p) else None), fresh = length xss\<rparr>"


definition example_env :: env where
  "example_env = \<lparr>
     import_result = (\<lambda>spec. if spec = ''@babylonjs/core'' then
         Some \<lparr>has_WebGLRenderer = False, has_Scene = True, has_PerspectiveCamera = False,
               has_Engine = True, has_Application = False, has_pc_Application = False\<rparr>
       else None),
     window_pc = Some \<lparr>has_WebGLRenderer = False, has_Scene = False, has_PerspectiveCamera = False,
               has_Engine = False, has_Application = True, has_pc_Application = False\<rparr>,
     init_throws = (\<lambda>l m. if l = Babylon then Some (Error ''WebGL not supported'') else None),
     texture_loads = (\<lambda>url. False)\<rparr>"

definition example_block :: block where
  "example_block = \<lparr>block_id = 0, block_name = [], block_position = (1 / 2, 1 / 2, 1 / 2),
                     block_material = Colored 0x8B4513\<rparr>"

definition example_three :: three_state where
  "example_three = \<lparr>t_blocks = [blockKey 0 0 0 \<mapsto> example_block], t_world = [example_block],
                      t_disposed = [], t_next = 1, t_blockSize = 1\<rparr>"

definition example_babylon :: babylon_state where
  "example_babylon = \<lparr>b_blocks = [blockKey 0 0 0 \<mapsto> example_block], b_scene = [example_block],
                        b_next = 1, b_blockSize = 1\<rparr>"

definition example_playcanvas :: playcanvas_state where
  "example_playcanvas = \<lparr>p_blocks = [blockKey 0 0 0 \<mapsto> example_block], p_root = [example_block],
                           p_assets = [], p_next = 1, p_blockSize = 1\<rparr>"

section \<open>What each matrix operation stores\<close>

lemmas cm_defs = cm_product_def cm_entry_def cm_def

lemma list16:
  assumes "length (xs::'a list) = 16"
  obtains x0 x1 x2 x3 x4 x5 x6 x7 x8 x9 x10 x11 x12 x13 x14 x15
  where "xs = [x0,x1,x2,x3,x4,x5,x6,x7,x8,x9,x10,x11,x12,x13,x14,x15]"
  using assms by (auto simp: numeral_eq_Suc length_Suc_conv)

lemma list3:
  assumes "length (xs::'a list) = 3"
  obtains x y z where "xs = [x, y, z]"
  using assms by (auto simp: numeral_eq_Suc length_Suc_conv)

lemma length_cm_product [simp]: "length (cm_product a b) = 16"
  by (simp add: cm_product_def)




lemma rotateX_result:
  assumes a: "cells h a = Some ma" "length ma = 16"
  and o: "cells h out = Some mo" "length mo = 16"
  shows "mat4_rotateX out a t h =
    Some (out, upd h out (take 4 mo @ take 8 (drop 4 (cm_product ma (rotation_x t))) @ drop 12 mo))"
proof -
  obtain a0 a1 a2 a3 a4 a5 a6 a7 a8 a9 a10 a11 a12 a13 a14 a15 where
    ma: "ma = [a0,a1,a2,a3,a4,a5,a6,a7,a8,a9,a10,a11,a12,a13,a14,a15]"
    using a(2) by (rule list16)
  obtain c0 c1 c2 c3 c4 c5 c6 c7 c8 c9 c10 c11 c12 c13 c14 c15 where
    mo: "mo = [c0,c1,c2,c3,c4,c5,c6,c7,c8,c9,c10,c11,c12,c13,c14,c15]"
    using o(2) by (rule list16)
  show ?thesis
    using a(1) o(1) unfolding ma mo
    by (simp add: mat4_rotateX_def rd_def wr_def upd_def cm_defs rotation_x_def Let_def)
qed

lemma rotateY_result:
  assumes a: "cells h a = Some ma" "length ma = 16"
  and o: "cells h out = Some mo" "length mo = 16"
  shows "mat4_rotateY out a t h =
    Some (out, upd h out (take 4 (cm_product ma (rotation_y t)) @ take 4 (drop 4 mo)
                          @ take 4 (drop 8 (cm_product ma (rotation_y t))) @ drop 12 mo))"
proof -
  obtain a0 a1 a2 a3 a4 a5 a6 a7 a8 a9 a10 a11 a12 a13 a14 a15 where
    ma: "ma = [a0,a1,a2,a3,a4,a5,a6,a7,a8,a9,a10,a11,a12,a13,a14,a15]"
    using a(2) by (rule list16)
  obtain c0 c1 c2 c3 c4 c5 c6 c7 c8 c9 c10 c11 c12 c13 c14 c15 where
    mo: "mo = [c0,c1,c2,c3,c4,c5,c6,c7,c8,c9,c10,c11,c12,c13,c14,c15]"
    using o(2) by (rule list16)
  show ?thesis
    using a(1) o(1) unfolding ma mo
    by (simp add: mat4_rotateY_def rd_def wr_def upd_def cm_defs rotation_y_def Let_def)
qed

lemma rotateZ_result:
  assumes a: "cells h a = Some ma" "length ma = 16"
  and o: "cells h out = Some mo" "length mo = 16"
  shows "mat4_rotateZ out a t h =
    Some (out, upd h out (take 8 (cm_product ma (rotation_z t)) @ drop 8 mo))"
proof -
  obtain a0 a1 a2 a3 a4 a5 a6 a7 a8 a9 a10 a11 a12 a13 a14 a15 where
    ma: "ma = [a0,a1,a2,a3,a4,a5,a6,a7,a8,a9,a10,a11,a12,a13,a14,a15]"
    using a(2) by (rule list16)
  obtain c0 c1 c2 c3 c4 c5 c6 c7 c8 c9 c10 c11 c12 c13 c14 c15 where
    mo: "mo = [c0,c1,c2,c3,c4,c5,c6,c7,c8,c9,c10,c11,c12,c13,c14,c15]"
    using o(2) by (rule list16)
  show ?thesis
    using a(1) o(1) unfolding ma mo
    by (simp add: mat4_rotateZ_def rd_def wr_def upd_def cm_defs rotation_z_def Let_def)
qed

lemma upd_upd [simp]: "upd (upd h p xs) p ys = upd h p ys"
  by (simp add: upd_def)

lemma cells_upd [simp]: "cells (upd h p xs) q = (if q = p then Some xs else cells h q)"
  by (simp add: upd_def)


lemma perspective_result:
  assumes o: "cells h out = Some mo" "length mo = 16"
    and t: "cos (fov / 2) \<noteq> 0" "tan (fov / 2) \<noteq> 0" and asp: "aspect \<noteq> 0" and nf: "near \<noteq> far"
  shows "mat4_perspective out fov aspect near far h =
    Some (out, upd h out
      [1 / tan (fov / 2) / aspect, 0, 0, 0,
       0, 1 / tan (fov / 2), 0, 0,
       0, 0, (far + near) * (1 / (near - far)), - 1,
       0, 0, (2 * far * near) * (1 / (near - far)), 0])"
proof -
  obtain c0 c1 c2 c3 c4 c5 c6 c7 c8 c9 c10 c11 c12 c13 c14 c15 where
    mo: "mo = [c0,c1,c2,c3,c4,c5,c6,c7,c8,c9,c10,c11,c12,c13,c14,c15]"
    using o(2) by (rule list16)
  show ?thesis
    using o(1) t asp nf unfolding mo
    by (simp add: mat4_perspective_def js_tan_def js_div_def wr_def upd_def)
qed

















lemma take_drop_product_inplace:
  assumes "length m = 16"
  shows "take 12 m @ drop 12 (cm_product m (translation_matrix x y z)) = cm_product m (translation_matrix x y z)"
    and "take 12 (cm_product m (scaling_matrix x y z)) @ drop 12 m = cm_product m (scaling_matrix x y z)"
    and "take 4 m @ take 8 (drop 4 (cm_product m (rotation_x t))) @ drop 12 m = cm_product m (rotation_x t)"
    and "take 4 (cm_product m (rotation_y t)) @ take 4 (drop 4 m)
           @ take 4 (drop 8 (cm_product m (rotation_y t))) @ drop 12 m = cm_product m (rotation_y t)"
    and "take 8 (cm_product m (rotation_z t)) @ drop 8 m = cm_product m (rotation_z t)"
proof -
  obtain a0 a1 a2 a3 a4 a5 a6 a7 a8 a9 a10 a11 a12 a13 a14 a15 where
    m: "m = [a0,a1,a2,a3,a4,a5,a6,a7,a8,a9,a10,a11,a12,a13,a14,a15]"
    using assms by (rule list16)
  show "take 12 m @ drop 12 (cm_product m (translation_matrix x y z)) = cm_product m (translation_matrix x y z)"
    unfolding m by (simp add: cm_defs translation_matrix_def)
  show "take 12 (cm_product m (scaling_matrix x y z)) @ drop 12 m = cm_product m (scaling_matrix x y z)"
    unfolding m by (simp add: cm_defs scaling_matrix_def)
  show "take 4 m @ take 8 (drop 4 (cm_product m (rotation_x t))) @ drop 12 m = cm_product m (rotation_x t)"
    unfolding m by (simp add: cm_defs rotation_x_def)
  show "take 4 (cm_product m (rotation_y t)) @ take 4 (drop 4 m)
           @ take 4 (drop 8 (cm_product m (rotation_y t))) @ drop 12 m = cm_product m (rotation_y t)"
    unfolding m by (simp add: cm_defs rotation_y_def)
  show "take 8 (cm_product m (rotation_z t)) @ drop 8 m = cm_product m (rotation_z t)"
    unfolding m by (simp add: cm_defs rotation_z_def)
qed

lemma ortho_keeps_old_entries:
  "returned_array (mat4_ortho 0 (- 1) 1 (- 1) 1 1 3
       (heap_of [[1, 0, 0, 0,  0, 1, 0, 0,  0, 0, - 2, - 1,  0, 0, - 3, 0]]))
     = Some [1, 0, 0, 0,  0, 1, 0, 0,  0, 0, - 1, - 1,  0, 0, - 2, 1]"
  by (simp add: returned_array_def heap_of_def mat4_ortho_def wr_def js_div_def)

section \<open>What \<open>Mesh.update\<close> does\<close>

lemma mat4_has_no_identity: "map_of mat4 ''identity'' = None"
  by (simp add: mat4_def)

lemma create_contents:
  "(replicate 16 (0::real))[0 := 1, 5 := 1, 10 := 1, 15 := 1] = identity16"
  by (simp add: identity16_def numeral_eq_Suc)

lemma update_throws:
  assumes "length (rotation this) = 3" "length (rotationSpeed this) = 3"
  shows "update this h =
    Some (Some (TypeError ''mat4.identity is not a function''),
          this\<lparr>rotation := map2 (+) (rotation this) (rotationSpeed this)\<rparr>, h)"
proof -
  obtain r0 r1 r2 where r: "rotation this = [r0, r1, r2]" using assms(1) by (rule list3)
  obtain s0 s1 s2 where s: "rotationSpeed this = [s0, s1, s2]" using assms(2) by (rule list3)
  show ?thesis
    by (simp add: update_def elem_def r s mat4_call_def mat4_has_no_identity and_then_def)
qed

lemma rotations_in_place:
  assumes "cells h p = Some identity16"
  shows "do { (p, h) \<leftarrow> mat4_rotateX p p x h;
              (p, h) \<leftarrow> mat4_rotateY p p y h;
              mat4_rotateZ p p z h }
         = Some (p, upd h p (cm_product (cm_product (cm_product identity16 (rotation_x x))
                                (rotation_y y)) (rotation_z z)))"
proof -
  have l: "length identity16 = 16" by (simp add: identity16_def)
  let ?a = "cm_product identity16 (rotation_x x)"
  let ?b = "cm_product ?a (rotation_y y)"
  have 1: "mat4_rotateX p p x h = Some (p, upd h p ?a)"
    using rotateX_result [OF assms l assms l] take_drop_product_inplace(3) [OF l] by simp
  have 2: "mat4_rotateY p p y (upd h p ?a) = Some (p, upd h p ?b)"
    using rotateY_result [of "upd h p ?a" p ?a p ?a y]
      take_drop_product_inplace(4) [of ?a y] by simp
  have 3: "mat4_rotateZ p p z (upd h p ?b) = Some (p, upd h p (cm_product ?b (rotation_z z)))"
    using rotateZ_result [of "upd h p ?b" p ?b p ?b z]
      take_drop_product_inplace(5) [of ?b z] by simp
  show ?thesis by (simp add: 1 2 3)
qed

section \<open>The loop of the engine loader\<close>

lemma try_return_eq:
  "try_return l r tr = ((case r of Inl err \<Rightarrow> None | Inr hnd \<Rightarrow> Some hnd), tr @ [Init l])"
  by (simp add: try_return_def split: sum.splits)

lemma attempt_load_then_init:
  "attempt e opts name tr =
     (case dynamic_load e name of
        (None, ev) \<Rightarrow> (None, tr @ ev)
      | (Some m, ev) \<Rightarrow> (case engine_init e opts name m of (r, ev') \<Rightarrow> (r, tr @ ev @ ev')))"
proof -
  consider (three) "name = ''three''"
    | (babylon) "name \<noteq> ''three''" "name = ''@babylonjs/core'' \<or> name = ''babylon''"
    | (playcanvas) "name \<noteq> ''three''" "\<not> (name = ''@babylonjs/core'' \<or> name = ''babylon'')"
        "name = ''playcanvas''"
    | (other) "name \<noteq> ''three''" "\<not> (name = ''@babylonjs/core'' \<or> name = ''babylon'')"
        "name \<noteq> ''playcanvas''"
    by blast
  then show ?thesis
  proof cases
    case three
    show ?thesis
      unfolding attempt_def dynamic_load_def engine_init_def if_P [OF three]
      by (simp add: tryImport_def try_return_eq split: option.splits)
  next
    case babylon
    show ?thesis
      unfolding attempt_def dynamic_load_def engine_init_def if_not_P [OF babylon(1)] if_P [OF babylon(2)]
      by (simp add: tryImport_def or_else_def try_return_eq split: option.splits)
  next
    case playcanvas
    show ?thesis
      unfolding attempt_def dynamic_load_def engine_init_def if_not_P [OF playcanvas(1)]
        if_not_P [OF playcanvas(2)] if_P [OF playcanvas(3)]
      by (simp add: tryImport_def or_else_def try_return_eq split: option.splits)
  next
    case other
    show ?thesis
      unfolding attempt_def dynamic_load_def engine_init_def if_not_P [OF other(1)]
        if_not_P [OF other(2)] if_not_P [OF other(3)]
      by (auto simp add: tryImport_def try_return_eq split: option.splits)
  qed
qed


lemma createEngine_loop_first_available:
  "createEngine_loop e opts ps tr =
     (case first_available (dynamic_load e) (engine_init e opts) ps of (r, evs) \<Rightarrow> (r, tr @ evs))"
proof (induction ps arbitrary: tr)
  case Nil
  show ?case by simp
next
  case (Cons name rest)
  show ?case
    by (simp add: attempt_load_then_init Cons.IH split: prod.splits option.splits)
qed

section \<open>The registry of blocks\<close>

lemma three_addBlock_present:
  "t_blocks ts (blockKey x y z) = Some m \<Longrightarrow> three_addBlock e x y z st ts = (m, ts)"
  by (simp add: three_addBlock_def)

lemma babylon_addBlock_present:
  "b_blocks bs (blockKey x y z) = Some m \<Longrightarrow> babylon_addBlock e x y z st bs = (m, bs)"
  by (simp add: babylon_addBlock_def)

lemma playcanvas_addBlock_present:
  "p_blocks ps (blockKey x y z) = Some m \<Longrightarrow> playcanvas_addBlock e x y z st ps = Some (m, ps)"
  by (simp add: playcanvas_addBlock_def)

lemma three_addBlock_registers:
  "t_blocks (snd (three_addBlock e x y z st ts)) (blockKey x y z)
     = Some (fst (three_addBlock e x y z st ts))"
  by (cases "t_blocks ts (blockKey x y z)") (simp_all add: three_addBlock_def Let_def)

lemma babylon_addBlock_registers:
  "b_blocks (snd (babylon_addBlock e x y z st bs)) (blockKey x y z)
     = Some (fst (babylon_addBlock e x y z st bs))"
  by (cases "b_blocks bs (blockKey x y z)") (simp_all add: babylon_addBlock_def Let_def)

lemma playcanvas_addBlock_registers:
  assumes "playcanvas_addBlock e x y z st ps = Some (m, ps')"
  shows "p_blocks ps' (blockKey x y z) = Some m"
proof (cases "p_blocks ps (blockKey x y z)")
  case (Some m0)
  then show ?thesis using assms by (simp add: playcanvas_addBlock_def)
next
  case None
  show ?thesis
  proof (cases "texture st")
    case None': None
    show ?thesis using assms None None' by (auto simp add: playcanvas_addBlock_def Let_def)
  next
    case (Some t)
    show ?thesis using assms None Some
      by (cases "t = []"; cases "texture_loads e t") (auto simp add: playcanvas_addBlock_def Let_def)
  qed
qed

lemma three_removeBlock_present:
  "t_blocks ts (blockKey x y z) = Some m \<Longrightarrow>
   three_removeBlock x y z ts =
     (True, ts\<lparr>t_world := filter (\<lambda>b. block_id b \<noteq> block_id m) (t_world ts),
               t_disposed := t_disposed ts @ [block_id m],
               t_blocks := (t_blocks ts)(blockKey x y z := None)\<rparr>)"
  by (simp add: three_removeBlock_def)

lemma three_removeBlock_absent:
  "t_blocks ts (blockKey x y z) = None \<Longrightarrow> three_removeBlock x y z ts = (False, ts)"
  by (simp add: three_removeBlock_def)

lemma babylon_removeBlock_present:
  "b_blocks bs (blockKey x y z) = Some m \<Longrightarrow>
   babylon_removeBlock x y z bs =
     (True, bs\<lparr>b_scene := filter (\<lambda>b. block_id b \<noteq> block_id m) (b_scene bs),
               b_blocks := (b_blocks bs)(blockKey x y z := None)\<rparr>)"
  by (simp add: babylon_removeBlock_def)

lemma babylon_removeBlock_absent:
  "b_blocks bs (blockKey x y z) = None \<Longrightarrow> babylon_removeBlock x y z bs = (False, bs)"
  by (simp add: babylon_removeBlock_def)

lemma playcanvas_removeBlock_present:
  "p_blocks ps (blockKey x y z) = Some m \<Longrightarrow>
   playcanvas_removeBlock x y z ps =
     (True, ps\<lparr>p_root := filter (\<lambda>b. block_id b \<noteq> block_id m) (p_root ps),
               p_blocks := (p_blocks ps)(blockKey x y z := None)\<rparr>)"
  by (simp add: playcanvas_removeBlock_def)

lemma playcanvas_removeBlock_absent:
  "p_blocks ps (blockKey x y z) = None \<Longrightarrow> playcanvas_removeBlock x y z ps = (False, ps)"
  by (simp add: playcanvas_removeBlock_def)

section \<open>The claims about the matrix library\<close>

text \<open>
  Claim C1: \<open>multiply(out, a, b)\<close> stores the column-major product \<open>a \<times> b\<close>, the
  transform that applies \<open>b\<close> first and then \<open>a\<close>.

  The code does not: by \<open>multiply_result\<close> it stores \<open>cm_product b a\<close>, the transform
  that applies \<open>a\<close> first. With \<open>a\<close> the translation by \<open>(1, 2, 3)\<close> and \<open>b\<close> the
  scaling by 2 it stores the matrix whose last column is \<open>(2, 4, 6, 1)\<close>, the translation
  scaled, where \<open>a \<times> b\<close> has \<open>(1, 2, 3, 1)\<close>. The sibling \<open>translate\<close> does follow
  the column-major convention: \<open>translate(s, s, v)\<close> turns \<open>s\<close> into
  \<open>s \<times> translation v\<close>, which is what \<open>multiply(out, s, translation v)\<close> should store
  and does not.
\<close>

theorem multiply_composes_a_first:
  "returned_array (mat4_multiply 0 1 2
       (heap_of [zero16, translation_matrix 1 2 3, scaling_matrix 2 2 2]))
     = Some [2, 0, 0, 0,  0, 2, 0, 0,  0, 0, 2, 0,  2, 4, 6, 1]
   \<and> cm_product (translation_matrix 1 2 3) (scaling_matrix 2 2 2)
     = [2, 0, 0, 0,  0, 2, 0, 0,  0, 0, 2, 0,  1, 2, 3, 1]
   \<and> returned_array (mat4_translate 1 1 2 (heap_of [zero16, scaling_matrix 2 2 2, [1, 2, 3]]))
     = Some (cm_product (scaling_matrix 2 2 2) (translation_matrix 1 2 3))
   \<and> returned_array (mat4_multiply 0 1 2
       (heap_of [zero16, scaling_matrix 2 2 2, translation_matrix 1 2 3]))
     = Some (cm_product (translation_matrix 1 2 3) (scaling_matrix 2 2 2))"
  by (simp add: returned_array_def heap_of_def zero16_def translation_matrix_def scaling_matrix_def
        mat4_multiply_def mat4_translate_def rd_def wr_def cm_defs)








text \<open>
  Claim C5: for \<open>0 < fov < pi\<close>, \<open>aspect > 0\<close> and \<open>0 < near < far\<close>,
  \<open>perspective\<close> stores \<open>(far + near) / (near - far)\<close> at index 10, \<open>-1\<close> at
  index 11, \<open>(2 * far * near) / (near - far)\<close> at index 14 and \<open>0\<close> at index 15,
  and no division by zero occurs.
\<close>

theorem perspective_clip_block:
  assumes "0 < fov" "fov < pi" "0 < aspect" "0 < near" "near < far"
    and "cells h out = Some mo" "length mo = 16"
  shows "\<exists>r. mat4_perspective out fov aspect near far h = Some (out, upd h out r)
           \<and> length r = 16
           \<and> r ! 10 = (far + near) / (near - far) \<and> r ! 11 = - 1
           \<and> r ! 14 = (2 * far * near) / (near - far) \<and> r ! 15 = 0"
proof -
  let ?r = "[1 / tan (fov / 2) / aspect, 0, 0, 0,
             0, 1 / tan (fov / 2), 0, 0,
             0, 0, (far + near) * (1 / (near - far)), - 1,
             0, 0, (2 * far * near) * (1 / (near - far)), 0]"
  have "0 < fov / 2" "fov / 2 < pi / 2" using assms(1,2) by simp_all
  then have "0 < cos (fov / 2)" "0 < tan (fov / 2)"
    by (simp_all add: cos_gt_zero_pi tan_gt_zero)
  then have "cos (fov / 2) \<noteq> 0" "tan (fov / 2) \<noteq> 0" by simp_all
  moreover have "aspect \<noteq> 0" "near \<noteq> far" using assms(3,5) by simp_all
  ultimately have "mat4_perspective out fov aspect near far h = Some (out, upd h out ?r)"
    by (rule perspective_result [OF assms(6,7)])
  then show ?thesis
    by (intro exI [of _ ?r]) simp
qed

theorem perspective_clip_block_witness:
  "\<exists>r. mat4_perspective 0 1 (4 / 3) (1 / 10) 100 (heap_of [zero16])
          = Some (0, upd (heap_of [zero16]) 0 r)
       \<and> length r = 16
       \<and> r ! 10 = (100 + 1 / 10) / (1 / 10 - 100) \<and> r ! 11 = - 1
       \<and> r ! 14 = (2 * 100 * (1 / 10)) / (1 / 10 - 100) \<and> r ! 15 = 0"
proof -
  have p: "(1::real) < pi" using pi_ge_two by linarith
  have h: "cells (heap_of [zero16]) 0 = Some zero16" by (simp add: heap_of_def)
  have l: "length zero16 = 16" by (simp add: zero16_def)
  show ?thesis
    by (rule perspective_clip_block [OF _ p _ _ _ h l]) simp_all
qed



section \<open>The claim about the mesh\<close>

text \<open>
  Claim C7: \<open>N\<close> calls of \<open>Mesh.update\<close> advance the rotation by \<open>N\<close> times the
  rotation speed, and leave in the model matrix the one built from the identity by
  \<open>rotateX\<close>, \<open>rotateY\<close> and \<open>rotateZ\<close> at the accumulated angles.

  The code does not get that far: \<open>update\<close> calls \<open>mat4.identity\<close>, which the
  library does not define, so after advancing the rotation each call throws a
  \<open>TypeError\<close> and the model matrix is never rebuilt. For a mesh as the constructor
  makes it (speed \<open>[0.01, 0.01, 0]\<close>) the model is still the identity after one
  \<open>update\<close>, which the matrix of the three rotations is not.
\<close>

theorem update_throws_before_rebuilding:
  "(case Mesh_new None (heap_of []) of (this, h) \<Rightarrow>
      rotationSpeed this = [1 / 100, 1 / 100, 0] \<and> rotation this = [0, 0, 0]
    \<and> cells h (model this) = Some identity16
    \<and> update this h =
         Some (Some (TypeError ''mat4.identity is not a function''),
               this\<lparr>rotation := [1 / 100, 1 / 100, 0]\<rparr>, h)
    \<and> returned_array (do {
          (p, h) \<leftarrow> mat4_rotateX (model this) (model this) (1 / 100) h;
          (p, h) \<leftarrow> mat4_rotateY (model this) (model this) (1 / 100) h;
          mat4_rotateZ (model this) (model this) 0 h })
         \<noteq> Some identity16)"
proof -
  have "(0::real) < 1 / 100" "(1::real) / 100 < pi" using pi_ge_two by simp_all
  then have "sin (1 / 100 :: real) \<noteq> 0" using sin_gt_zero [of "1 / 100"] by simp
  then show ?thesis
    by (simp add: Mesh_new_def mat4_create_def alloc_def heap_of_def create_contents
        update_def elem_def mat4_call_def mat4_has_no_identity and_then_def
        returned_array_def mat4_rotateX_def mat4_rotateY_def mat4_rotateZ_def rd_def wr_def Let_def)
     (simp add: identity16_def)
qed

section \<open>The claims about the engine loader and the adapters\<close>

text \<open>
  Claim C8: for every preference list \<open>createEngine\<close> tries the candidates in list
  order, each by its dynamic load followed, when a module was loaded, by its
  initialisation; a failure of either step is swallowed and the next candidate is
  tried; the handle of the first candidate that loads and initialises is returned, and
  when none does the result is the error "No supported 3D engine available".
  The right-hand side is the loader as the specification words it.
\<close>

theorem createEngine_first_available:
  "createEngine e (opts\<lparr>opt_prefer := Some ps\<rparr>)
     = first_available (dynamic_load e) (engine_init e (opts\<lparr>opt_prefer := Some ps\<rparr>)) ps"
  by (simp add: createEngine_def createEngine_loop_first_available split: prod.splits)

theorem createEngine_first_available_witness:
  "createEngine example_env \<lparr>opt_prefer = Some [''three'', ''babylon'', ''playcanvas''], opt_blockSize = None\<rparr>
     = (Inr (PlaycanvasHandle \<lparr>p_blocks = Map.empty, p_root = [], p_assets = [], p_next = 0, p_blockSize = 1\<rparr>),
        [Import ''three'', Import ''@babylonjs/core'', Init Babylon, Import ''playcanvas'', Init Playcanvas])
   \<and> createEngine example_env \<lparr>opt_prefer = Some [''three'', ''babylon''], opt_blockSize = None\<rparr>
     = (Inl no_engine, [Import ''three'', Import ''@babylonjs/core'', Init Babylon])"
  using createEngine_first_available
          [where e = example_env and opts = "\<lparr>opt_prefer = None, opt_blockSize = None\<rparr>"
             and ps = "[''three'', ''babylon'', ''playcanvas'']"]
        createEngine_first_available
          [where e = example_env and opts = "\<lparr>opt_prefer = None, opt_blockSize = None\<rparr>"
             and ps = "[''three'', ''babylon'']"]
  by (simp add: dynamic_load_def engine_init_def tryImport_def or_else_def
        try_return_def initBabylon_def initPlaycanvas_def example_env_def block_size_def)

text \<open>
  Claim C9: in each adapter, \<open>addBlock\<close> at a coordinate whose key is in the registry
  returns the block registered there and changes nothing; so a second \<open>addBlock\<close> at a
  coordinate gives what the first gave.
\<close>

theorem addBlock_existing_key:
  "(t_blocks ts (blockKey x y z) = Some m \<longrightarrow> three_addBlock e x y z st ts = (m, ts))
   \<and> (b_blocks bs (blockKey x y z) = Some m \<longrightarrow> babylon_addBlock e x y z st bs = (m, bs))
   \<and> (p_blocks ps (blockKey x y z) = Some m \<longrightarrow> playcanvas_addBlock e x y z st ps = Some (m, ps))
   \<and> three_addBlock e x y z st' (snd (three_addBlock e x y z st ts)) = three_addBlock e x y z st ts
   \<and> babylon_addBlock e x y z st' (snd (babylon_addBlock e x y z st bs)) = babylon_addBlock e x y z st bs
   \<and> (playcanvas_addBlock e x y z st ps = Some (m', ps') \<longrightarrow>
        playcanvas_addBlock e x y z st' ps' = Some (m', ps'))"
proof (intro conjI impI)
  show "three_addBlock e x y z st' (snd (three_addBlock e x y z st ts)) = three_addBlock e x y z st ts"
    by (simp only: three_addBlock_present [OF three_addBlock_registers] prod.collapse)
  show "babylon_addBlock e x y z st' (snd (babylon_addBlock e x y z st bs)) = babylon_addBlock e x y z st bs"
    by (simp only: babylon_addBlock_present [OF babylon_addBlock_registers] prod.collapse)
  show "playcanvas_addBlock e x y z st' ps' = Some (m', ps')"
    if "playcanvas_addBlock e x y z st ps = Some (m', ps')"
    by (rule playcanvas_addBlock_present [OF playcanvas_addBlock_registers [OF that]])
  show "three_addBlock e x y z st ts = (m, ts)" if "t_blocks ts (blockKey x y z) = Some m"
    by (rule three_addBlock_present [OF that])
  show "babylon_addBlock e x y z st bs = (m, bs)" if "b_blocks bs (blockKey x y z) = Some m"
    by (rule babylon_addBlock_present [OF that])
  show "playcanvas_addBlock e x y z st ps = Some (m, ps)" if "p_blocks ps (blockKey x y z) = Some m"
    by (rule playcanvas_addBlock_present [OF that])
qed

theorem addBlock_existing_key_witness:
  "three_addBlock example_env 0 0 0 \<lparr>texture = Some ''grass.png'', color = None\<rparr> example_three
     = (example_block, example_three)
   \<and> babylon_addBlock example_env 0 0 0 \<lparr>texture = Some ''grass.png'', color = None\<rparr> example_babylon
     = (example_block, example_babylon)
   \<and> playcanvas_addBlock example_env 0 0 0 \<lparr>texture = Some ''grass.png'', color = None\<rparr> example_playcanvas
     = Some (example_block, example_playcanvas)
   \<and> playcanvas_addBlock example_env 0 0 0 \<lparr>texture = None, color = None\<rparr>
        (example_playcanvas\<lparr>p_blocks := Map.empty, p_root := [], p_next := 0\<rparr>)
     = Some (example_block, example_playcanvas)
   \<and> playcanvas_addBlock example_env 0 0 0 \<lparr>texture = None, color = Some 255\<rparr> example_playcanvas
     = Some (example_block, example_playcanvas)"
proof -
  have present: "t_blocks example_three (blockKey 0 0 0) = Some example_block"
    "b_blocks example_babylon (blockKey 0 0 0) = Some example_block"
    "p_blocks example_playcanvas (blockKey 0 0 0) = Some example_block"
    by (simp_all add: example_three_def example_babylon_def example_playcanvas_def)
  have first: "playcanvas_addBlock example_env 0 0 0 \<lparr>texture = None, color = None\<rparr>
        (example_playcanvas\<lparr>p_blocks := Map.empty, p_root := [], p_next := 0\<rparr>)
     = Some (example_block, example_playcanvas)"
    by (simp add: playcanvas_addBlock_def example_playcanvas_def example_block_def centre_def Let_def)
  note again = addBlock_existing_key [where ts = example_three and bs = example_babylon
        and ps = "example_playcanvas\<lparr>p_blocks := Map.empty, p_root := [], p_next := 0\<rparr>"
        and x = 0 and y = 0 and z = 0 and e = example_env and m' = example_block
        and ps' = example_playcanvas and st = "\<lparr>texture = None, color = None\<rparr>"
        and st' = "\<lparr>texture = None, color = Some 255\<rparr>"]
  show ?thesis
    using present first again
      addBlock_existing_key [where ts = example_three and bs = example_babylon
        and ps = example_playcanvas and x = 0 and y = 0 and z = 0 and m = example_block
        and e = example_env and st = "\<lparr>texture = Some ''grass.png'', color = None\<rparr>"]
    by blast
qed

text \<open>
  Claim C10: in each adapter, \<open>removeBlock\<close> returns \<open>true\<close> and deletes the key of the
  coordinate from the registry when the registry has a block under that key, and
  returns \<open>false\<close> and changes nothing when it has none.
\<close>

theorem removeBlock_reports_presence:
  "(blockKey x y z \<in> dom (t_blocks ts) \<longrightarrow>
       fst (three_removeBlock x y z ts)
     \<and> t_blocks (snd (three_removeBlock x y z ts)) = (t_blocks ts)(blockKey x y z := None))
   \<and> (blockKey x y z \<notin> dom (t_blocks ts) \<longrightarrow> three_removeBlock x y z ts = (False, ts))
   \<and> (blockKey x y z \<in> dom (b_blocks bs) \<longrightarrow>
       fst (babylon_removeBlock x y z bs)
     \<and> b_blocks (snd (babylon_removeBlock x y z bs)) = (b_blocks bs)(blockKey x y z := None))
   \<and> (blockKey x y z \<notin> dom (b_blocks bs) \<longrightarrow> babylon_removeBlock x y z bs = (False, bs))
   \<and> (blockKey x y z \<in> dom (p_blocks ps) \<longrightarrow>
       fst (playcanvas_removeBlock x y z ps)
     \<and> p_blocks (snd (playcanvas_removeBlock x y z ps)) = (p_blocks ps)(blockKey x y z := None))
   \<and> (blockKey x y z \<notin> dom (p_blocks ps) \<longrightarrow> playcanvas_removeBlock x y z ps = (False, ps))"
proof (intro conjI impI)
  show "fst (three_removeBlock x y z ts)" if "blockKey x y z \<in> dom (t_blocks ts)"
    using that by (auto simp add: three_removeBlock_present)
  show "t_blocks (snd (three_removeBlock x y z ts)) = (t_blocks ts)(blockKey x y z := None)"
    if "blockKey x y z \<in> dom (t_blocks ts)"
    using that by (auto simp add: three_removeBlock_present)
  show "three_removeBlock x y z ts = (False, ts)" if "blockKey x y z \<notin> dom (t_blocks ts)"
    using that by (simp add: three_removeBlock_absent domIff)
  show "fst (babylon_removeBlock x y z bs)" if "blockKey x y z \<in> dom (b_blocks bs)"
    using that by (auto simp add: babylon_removeBlock_present)
  show "b_blocks (snd (babylon_removeBlock x y z bs)) = (b_blocks bs)(blockKey x y z := None)"
    if "blockKey x y z \<in> dom (b_blocks bs)"
    using that by (auto simp add: babylon_removeBlock_present)
  show "babylon_removeBlock x y z bs = (False, bs)" if "blockKey x y z \<notin> dom (b_blocks bs)"
    using that by (simp add: babylon_removeBlock_absent domIff)
  show "fst (playcanvas_removeBlock x y z ps)" if "blockKey x y z \<in> dom (p_blocks ps)"
    using that by (auto simp add: playcanvas_removeBlock_present)
  show "p_blocks (snd (playcanvas_removeBlock x y z ps)) = (p_blocks ps)(blockKey x y z := None)"
    if "blockKey x y z \<in> dom (p_blocks ps)"
    using that by (auto simp add: playcanvas_removeBlock_present)
  show "playcanvas_removeBlock x y z ps = (False, ps)" if "blockKey x y z \<notin> dom (p_blocks ps)"
    using that by (simp add: playcanvas_removeBlock_absent domIff)
qed

theorem removeBlock_reports_presence_witness:
  "fst (three_removeBlock 0 0 0 example_three)
   \<and> t_blocks (snd (three_removeBlock 0 0 0 example_three))
       = (t_blocks example_three)(blockKey 0 0 0 := None)
   \<and> three_removeBlock 0 0 0 (example_three\<lparr>t_blocks := Map.empty\<rparr>)
       = (False, example_three\<lparr>t_blocks := Map.empty\<rparr>)
   \<and> fst (babylon_removeBlock 0 0 0 example_babylon)
   \<and> b_blocks (snd (babylon_removeBlock 0 0 0 example_babylon))
       = (b_blocks example_babylon)(blockKey 0 0 0 := None)
   \<and> babylon_removeBlock 0 0 0 (example_babylon\<lparr>b_blocks := Map.empty\<rparr>)
       = (False, example_babylon\<lparr>b_blocks := Map.empty\<rparr>)
   \<and> fst (playcanvas_removeBlock 0 0 0 example_playcanvas)
   \<and> p_blocks (snd (playcanvas_removeBlock 0 0 0 example_playcanvas))
       = (p_blocks example_playcanvas)(blockKey 0 0 0 := None)
   \<and> playcanvas_removeBlock 0 0 0 (example_playcanvas\<lparr>p_blocks := Map.empty\<rparr>)
       = (False, example_playcanvas\<lparr>p_blocks := Map.empty\<rparr>)"
proof -
  have d: "blockKey 0 0 0 \<in> dom (t_blocks example_three)"
      "blockKey 0 0 0 \<in> dom (b_blocks example_babylon)"
      "blockKey 0 0 0 \<in> dom (p_blocks example_playcanvas)"
      "blockKey 0 0 0 \<notin> dom (t_blocks (example_three\<lparr>t_blocks := Map.empty\<rparr>))"
      "blockKey 0 0 0 \<notin> dom (b_blocks (example_babylon\<lparr>b_blocks := Map.empty\<rparr>))"
      "blockKey 0 0 0 \<notin> dom (p_blocks (example_playcanvas\<lparr>p_blocks := Map.empty\<rparr>))"
    by (simp_all add: example_three_def example_babylon_def example_playcanvas_def)
  note present = removeBlock_reports_presence [where x = 0 and y = 0 and z = 0
      and ts = example_three and bs = example_babylon and ps = example_playcanvas]
  note absent = removeBlock_reports_presence [where x = 0 and y = 0 and z = 0
      and ts = "example_three\<lparr>t_blocks := Map.empty\<rparr>"
      and bs = "example_babylon\<lparr>b_blocks := Map.empty\<rparr>"
      and ps = "example_playcanvas\<lparr>p_blocks := Map.empty\<rparr>"]
  show ?thesis
    using present absent d by blast
qed

end
